theory Spec2Isabelle
  imports Complex_Main
begin

section \<open>Exceptions\<close>

text \<open>
  The Python exceptions that the modelled code can raise or has to handle.
  \<open>Terminator\<close> is \<^verbatim>\<open>turtle.Terminator\<close> and \<open>TclError\<close> is \<^verbatim>\<open>tk.TclError\<close>,
  the two classes named by the \<^verbatim>\<open>except\<close> clause of \<^verbatim>\<open>LSystemRenderer.draw\<close>;
  \<open>InvalidArgument\<close> is the error the specification names for a negative iteration count.
\<close>

datatype exn =
    Terminator
  | TclError
  | ZeroDivisionError
  | IndexError
  | TypeError
  | InvalidArgument
  | OtherException string

section \<open>Viewport fit (\<^verbatim>\<open>renderer.py\<close>, lines 291 to 299)\<close>

text \<open>
  The bounding box is read as the tuple \<^verbatim>\<open>(minx, miny, maxx, maxy)\<close>; the window is the
  argument tuple \<^verbatim>\<open>(llx, lly, urx, ury)\<close> of \<^verbatim>\<open>setworldcoordinates\<close>. Python floats are
  idealised as reals, so the model computes exactly where the code rounds. The model does
  not follow the code where rounding decides the comparison of width and height; the
  evaluations below are at boxes where the rounded values compare as the exact ones do.
\<close>

type_synonym bbox = "real \<times> real \<times> real \<times> real"
type_synonym window = "real \<times> real \<times> real \<times> real"

definition epsilon :: real where
  "epsilon = 1 / 100000"

text \<open>Python's \<^verbatim>\<open>/\<close> raises \<^verbatim>\<open>ZeroDivisionError\<close> on a zero divisor.\<close>

definition py_truediv :: "real \<Rightarrow> real \<Rightarrow> exn + real" where
  "py_truediv a b = (if b = 0 then Inl ZeroDivisionError else Inr (a / b))"

text \<open>
  \<^verbatim>\<open>
  minx, miny, maxx, maxy = self._turtle.bounding_box.to_tuple()
  w = maxx - minx
  h = maxy - miny
  epsilon = 0.00001
  r = max(w, h) / (min(w, h) + epsilon)
  if maxx - minx > maxy - miny:
      self._turtle.screen.setworldcoordinates(minx, miny - 1, maxx, (maxy - 1) * r)
  else:
      self._turtle.screen.setworldcoordinates(minx, miny, maxx * r, maxy)
  \<close>
  \<open>world_coordinates\<close> is the window these lines pass on, or the exception of the division.
\<close>

definition world_coordinates :: "bbox \<Rightarrow> exn + window" where
  "world_coordinates bb =
     (case bb of (minx, miny, maxx, maxy) \<Rightarrow>
        let w = maxx - minx;
            h = maxy - miny
        in case py_truediv (max w h) (min w h + epsilon) of
             Inl e \<Rightarrow> Inl e
           | Inr r \<Rightarrow>
               if maxx - minx > maxy - miny
               then Inr (minx, miny - 1, maxx, (maxy - 1) * r)
               else Inr (minx, miny, maxx * r, maxy))"

text \<open>A point lies in a bounding box, or in a window, when both coordinates are within its bounds.\<close>

fun in_box :: "real \<times> real \<times> real \<times> real \<Rightarrow> real \<times> real \<Rightarrow> bool" where
  "in_box (x0, y0, x1, y1) (x, y) = (x0 \<le> x \<and> x \<le> x1 \<and> y0 \<le> y \<and> y \<le> y1)"

section \<open>The renderer's data\<close>

text \<open>
  \<^verbatim>\<open>TurtleConfiguration\<close>, with the fields its constructor call in \<^verbatim>\<open>settings_modal\<close>
  names. The move mapper is a \<^verbatim>\<open>Dict[str, str]\<close>.
\<close>

record turtle_configuration =
  forward_step :: int
  angle :: real
  initial_heading_angle :: int
  speed :: int
  fg_color :: "real \<times> real \<times> real"
  bg_color :: "real \<times> real \<times> real"
  turtle_move_mapper :: "string \<rightharpoonup> string"

text \<open>
  The fields of \<^verbatim>\<open>LSystemRenderer\<close> that \<^verbatim>\<open>draw\<close> reads: \<^verbatim>\<open>self.title\<close>,
  \<^verbatim>\<open>self._turtle_conf\<close>, \<^verbatim>\<open>self.global_settings.animate\<close> and \<^verbatim>\<open>self.lsystem\<close>. The class
  \<^verbatim>\<open>Lsystem\<close> is not among the sources; \<open>lsystem_symbols\<close> is the sequence of symbols
  that iterating \<^verbatim>\<open>self.lsystem\<close> yields, each a string, and \<^verbatim>\<open>len(self.lsystem)\<close> is its
  length.
\<close>

record renderer =
  title :: string
  lsystem_symbols :: "string list"
  turtle_conf :: turtle_configuration
  animate :: bool

section \<open>The outside world: turtle, screen and window\<close>

text \<open>
  A call into \<^verbatim>\<open>turtle\<close> or \<^verbatim>\<open>tkinter\<close> changes the world and returns, or changes the
  world and raises. \<open>Raise e w\<close> keeps the world \<open>w\<close> reached when \<open>e\<close> was raised:
  Python undoes nothing.
\<close>

datatype 'w outcome = Normal 'w | Raise exn 'w

definition and_then :: "'w outcome \<Rightarrow> ('w \<Rightarrow> 'w outcome) \<Rightarrow> 'w outcome" where
  "and_then m f = (case m of Normal w \<Rightarrow> f w | Raise e w \<Rightarrow> Raise e w)"

text \<open>
  The methods of \<^verbatim>\<open>self._turtle\<close> (an \<^verbatim>\<open>LSystemTurtle\<close>, not among the sources), of its
  screen and of \<^verbatim>\<open>self._root\<close> that \<^verbatim>\<open>draw\<close> calls, as parameters over any type \<open>'w\<close> of
  worlds. \<open>root_title\<close> receives the title, the index \<open>i\<close> and \<^verbatim>\<open>len(self.lsystem)\<close>, from
  which the progress text is formatted. \<open>print_line\<close> is \<^verbatim>\<open>print\<close>.
\<close>

record 'w env =
  turtle_reset :: "'w \<Rightarrow> 'w outcome"
  turtle_animate :: "bool \<Rightarrow> 'w \<Rightarrow> 'w outcome"
  turtle_move :: "string \<Rightarrow> 'w \<Rightarrow> 'w outcome"
  turtle_hideturtle :: "'w \<Rightarrow> 'w outcome"
  turtle_update :: "'w \<Rightarrow> 'w outcome"
  turtle_save_to_eps :: "string \<Rightarrow> 'w \<Rightarrow> 'w outcome"
  turtle_mainloop :: "'w \<Rightarrow> 'w outcome"
  turtle_bounding_box :: "'w \<Rightarrow> bbox"
  screen_setworldcoordinates :: "window \<Rightarrow> 'w \<Rightarrow> 'w outcome"
  root_title :: "string \<times> nat \<times> nat \<Rightarrow> 'w \<Rightarrow> 'w outcome"
  print_line :: "string \<Rightarrow> 'w \<Rightarrow> 'w"

section \<open>The renderer's operations\<close>

text \<open>\<^verbatim>\<open>d.get(key, default)\<close> on a dictionary.\<close>

definition dict_get :: "('k \<rightharpoonup> 'v) \<Rightarrow> 'k \<Rightarrow> 'v \<Rightarrow> 'v" where
  "dict_get d key dflt = (case d key of None \<Rightarrow> dflt | Some v \<Rightarrow> v)"

text \<open>
  Line 278, \<^verbatim>\<open>k = self._turtle_conf.turtle_move_mapper.get(l_str, l_str)\<close>: the move that
  a symbol resolves to.
\<close>

definition move_key :: "turtle_configuration \<Rightarrow> string \<Rightarrow> string" where
  "move_key conf l_str = dict_get (turtle_move_mapper conf) l_str l_str"

text \<open>
  \<^verbatim>\<open>
  def _run_all_moves(self) -> None:
      for i, l_str in tqdm.tqdm(enumerate(self.lsystem, start=1), total=len(self.lsystem), ...):
          self._root.title(f"{self.title} | {100*(i/len(self.lsystem)):.0f} %")
          k = self._turtle_conf.turtle_move_mapper.get(l_str, l_str)
          self._turtle.move(k)
  \<close>
  \<open>run_moves\<close> is the loop from index \<open>i\<close> on; the progress bar of \<^verbatim>\<open>tqdm\<close> is left out.
\<close>

fun run_moves :: "'w env \<Rightarrow> renderer \<Rightarrow> nat \<Rightarrow> string list \<Rightarrow> 'w \<Rightarrow> 'w outcome" where
  "run_moves E R i [] w = Normal w"
| "run_moves E R i (l_str # rest) w =
     and_then (root_title E (title R, i, length (lsystem_symbols R)) w)
       (\<lambda>w. and_then (turtle_move E (move_key (turtle_conf R) l_str) w)
          (\<lambda>w. run_moves E R (Suc i) rest w))"

definition run_all_moves :: "'w env \<Rightarrow> renderer \<Rightarrow> 'w \<Rightarrow> 'w outcome" where
  "run_all_moves E R w = run_moves E R 1 (lsystem_symbols R) w"

text \<open>
  \<^verbatim>\<open>
  def _update_world_coordinates(self) -> None:
      self._turtle.reset()
      self._turtle.animate(False)
      self._run_all_moves()
      minx, miny, maxx, maxy = self._turtle.bounding_box.to_tuple()
      ...
      self._turtle.screen.setworldcoordinates(...)
      self._turtle.reset()
  \<close>
\<close>

definition update_world_coordinates :: "'w env \<Rightarrow> renderer \<Rightarrow> 'w \<Rightarrow> 'w outcome" where
  "update_world_coordinates E R w =
     and_then (turtle_reset E w)
       (\<lambda>w. and_then (turtle_animate E False w)
          (\<lambda>w. and_then (run_all_moves E R w)
             (\<lambda>w. case world_coordinates (turtle_bounding_box E w) of
                     Inl e \<Rightarrow> Raise e w
                   | Inr win \<Rightarrow>
                       and_then (screen_setworldcoordinates E win w) (turtle_reset E))))"

text \<open>
  \<^verbatim>\<open>
  def draw(self, save_to_eps_file: Path | None = None) -> None:
      try:
          self._update_world_coordinates()
          self._turtle.animate(self.global_settings.animate)
          self._run_all_moves()
          self._turtle.hideturtle()
          self._turtle.update()
          if save_to_eps_file:
              self._turtle.save_to_eps(f"{save_to_eps_file}.eps")
          self._turtle.mainloop()
      except (turtle.Terminator, tk.TclError):
          print("Exiting...")
  \<close>
  \<open>draw_body\<close> is the \<^verbatim>\<open>try\<close> block, \<open>draw\<close> the whole statement.
\<close>

definition draw_body :: "'w env \<Rightarrow> renderer \<Rightarrow> string option \<Rightarrow> 'w \<Rightarrow> 'w outcome" where
  "draw_body E R save_to_eps_file w =
     and_then (update_world_coordinates E R w)
       (\<lambda>w. and_then (turtle_animate E (animate R) w)
          (\<lambda>w. and_then (run_all_moves E R w)
             (\<lambda>w. and_then (turtle_hideturtle E w)
                (\<lambda>w. and_then (turtle_update E w)
                   (\<lambda>w. and_then
                           (case save_to_eps_file of
                              None \<Rightarrow> Normal w
                            | Some path \<Rightarrow> turtle_save_to_eps E (path @ ''.eps'') w)
                           (turtle_mainloop E))))))"

definition draw :: "'w env \<Rightarrow> renderer \<Rightarrow> string option \<Rightarrow> 'w \<Rightarrow> 'w outcome" where
  "draw E R save_to_eps_file w =
     (case draw_body E R save_to_eps_file w of
        Normal w' \<Rightarrow> Normal w'
      | Raise e w' \<Rightarrow>
          if e = Terminator \<or> e = TclError
          then Normal (print_line E ''Exiting...'' w')
          else Raise e w')"

section \<open>A recording world\<close>

text \<open>
  To observe what the renderer does, a world that is the list of the calls made so far.
  With a fault \<open>Some (n, e)\<close> the call made after \<open>n\<close> calls is recorded and raises \<open>e\<close>,
  as when the window is closed under the running turtle; with \<open>None\<close> every call returns.
\<close>

datatype call =
    TurtleReset
  | TurtleAnimate bool
  | TurtleMove string
  | TurtleHideturtle
  | TurtleUpdate
  | TurtleSaveToEps string
  | TurtleMainloop
  | SetWorldCoordinates window
  | RootTitle "string \<times> nat \<times> nat"
  | Print string

definition recorded :: "(nat \<times> exn) option \<Rightarrow> call \<Rightarrow> call list \<Rightarrow> call list outcome" where
  "recorded fault c calls =
     (case fault of
        None \<Rightarrow> Normal (calls @ [c])
      | Some (n, e) \<Rightarrow> if length calls = n then Raise e (calls @ [c]) else Normal (calls @ [c]))"

definition recording_env :: "bbox \<Rightarrow> (nat \<times> exn) option \<Rightarrow> call list env" where
  "recording_env bb fault =
     \<lparr> turtle_reset = recorded fault TurtleReset,
       turtle_animate = (\<lambda>b. recorded fault (TurtleAnimate b)),
       turtle_move = (\<lambda>k. recorded fault (TurtleMove k)),
       turtle_hideturtle = recorded fault TurtleHideturtle,
       turtle_update = recorded fault TurtleUpdate,
       turtle_save_to_eps = (\<lambda>p. recorded fault (TurtleSaveToEps p)),
       turtle_mainloop = recorded fault TurtleMainloop,
       turtle_bounding_box = (\<lambda>calls. bb),
       screen_setworldcoordinates = (\<lambda>win. recorded fault (SetWorldCoordinates win)),
       root_title = (\<lambda>t. recorded fault (RootTitle t)),
       print_line = (\<lambda>s calls. calls @ [Print s]) \<rparr>"

text \<open>The moves among recorded calls, in order.\<close>

fun interpreter_moves :: "call list \<Rightarrow> string list" where
  "interpreter_moves [] = []"
| "interpreter_moves (TurtleMove k # cs) = k # interpreter_moves cs"
| "interpreter_moves (c # cs) = interpreter_moves cs"

text \<open>The calls one pass over the symbols is expected to make, from index \<open>i\<close> on.\<close>

fun pass_calls :: "renderer \<Rightarrow> nat \<Rightarrow> string list \<Rightarrow> call list" where
  "pass_calls R i [] = []"
| "pass_calls R i (l_str # rest) =
     RootTitle (title R, i, length (lsystem_symbols R)) #
     TurtleMove (move_key (turtle_conf R) l_str) # pass_calls R (Suc i) rest"

text \<open>
  Performing a recorded call in any world, and a list of calls until one raises.
\<close>

fun perform :: "'w env \<Rightarrow> call \<Rightarrow> 'w \<Rightarrow> 'w outcome" where
  "perform E TurtleReset w = turtle_reset E w"
| "perform E (TurtleAnimate b) w = turtle_animate E b w"
| "perform E (TurtleMove k) w = turtle_move E k w"
| "perform E TurtleHideturtle w = turtle_hideturtle E w"
| "perform E TurtleUpdate w = turtle_update E w"
| "perform E (TurtleSaveToEps p) w = turtle_save_to_eps E p w"
| "perform E TurtleMainloop w = turtle_mainloop E w"
| "perform E (SetWorldCoordinates win) w = screen_setworldcoordinates E win w"
| "perform E (RootTitle t) w = root_title E t w"
| "perform E (Print s) w = Normal (print_line E s w)"

fun perform_all :: "'w env \<Rightarrow> call list \<Rightarrow> 'w \<Rightarrow> 'w outcome" where
  "perform_all E [] w = Normal w"
| "perform_all E (c # cs) w = and_then (perform E c w) (perform_all E cs)"

text \<open>A configuration and a renderer to run the operations on.\<close>

definition example_conf :: turtle_configuration where
  "example_conf =
     \<lparr> forward_step = 10, angle = 90, initial_heading_angle = 0, speed = 0,
       fg_color = (0, 0, 0), bg_color = (1, 1, 1),
       turtle_move_mapper = [''A'' \<mapsto> ''F''] \<rparr>"

definition example_renderer :: renderer where
  "example_renderer =
     \<lparr> title = ''Example'', lsystem_symbols = [''A'', ''+''],
       turtle_conf = example_conf, animate = True \<rparr>"

section \<open>The grammar\<close>

text \<open>
  What the properties \<^verbatim>\<open>axiom\<close> and \<^verbatim>\<open>productions\<close> of an \<^verbatim>\<open>Lsystem\<close> return. The keys
  and the replacements of the productions are strings.
\<close>

record lsystem =
  axiom :: string
  productions :: "string \<rightharpoonup> string"

text \<open>
  Modelled from the spec: one round of rewriting of \<^verbatim>\<open>Lsystem.apply\<close>, whose module
  \<^verbatim>\<open>l_system/base.py\<close> is not among the sources. Each round builds a new string by
  mapping every symbol of the current string through the productions, unmapped symbols
  passing through unchanged, and concatenating in order. A symbol is one character.
\<close>

definition rewrite :: "(string \<rightharpoonup> string) \<Rightarrow> string \<Rightarrow> string" where
  "rewrite P s = concat (map (\<lambda>c. case P [c] of None \<Rightarrow> [c] | Some r \<Rightarrow> r) s)"

text \<open>
  Modelled from the spec: \<^verbatim>\<open>Lsystem.apply(n)\<close>, whose module \<^verbatim>\<open>l_system/base.py\<close> is not
  among the sources. It performs \<open>n\<close> rounds of parallel substitution starting from the
  axiom and fails with \<open>InvalidArgument\<close> if \<open>n\<close> is negative.
\<close>

definition lsystem_apply :: "lsystem \<Rightarrow> int \<Rightarrow> exn + string" where
  "lsystem_apply L n =
     (if n < 0 then Inl InvalidArgument
      else Inr ((rewrite (productions L) ^^ nat n) (axiom L)))"

text \<open>The grammars of the specification's scenarios A and B.\<close>

definition Algae :: lsystem where
  "Algae = \<lparr>axiom = ''A'', productions = [''A'' \<mapsto> ''AB'', ''B'' \<mapsto> ''A'']\<rparr>"

definition KochCurve :: lsystem where
  "KochCurve = \<lparr>axiom = ''F'', productions = [''F'' \<mapsto> ''F+F--F+F'']\<rparr>"

section \<open>The pseudo-random grammar (\<^verbatim>\<open>pseudo_random.py\<close>)\<close>

text \<open>
  The constructor is annotated \<^verbatim>\<open>Iterable[str]\<close> and Python checks no annotation. The
  arguments modelled are the sequences of strings that \<^verbatim>\<open>random.choice\<close> can index: a
  list, a tuple, a string and a \<^verbatim>\<open>collections.UserList\<close>, which is no list but behaves as
  one; \<open>items\<close> are the elements that indexing yields. Sets, generators and other
  iterables are not modelled, and nothing below is about them.
\<close>

datatype py_seq =
    PyList "string list"
  | PyTuple "string list"
  | PyStr string
  | PyUserList "string list"

fun items :: "py_seq \<Rightarrow> string list" where
  "items (PyList xs) = xs"
| "items (PyTuple xs) = xs"
| "items (PyStr s) = map (\<lambda>c. [c]) s"
| "items (PyUserList xs) = xs"

text \<open>
  \<^verbatim>\<open>random.choice(seq)\<close> raises \<^verbatim>\<open>IndexError\<close> on an empty sequence and otherwise returns
  the element at a random index below the length. The draw of the generator is the
  parameter \<open>rnd\<close>, so that a statement for every \<open>rnd\<close> holds whatever is drawn.
\<close>

definition random_choice :: "nat \<Rightarrow> 'a list \<Rightarrow> exn + 'a" where
  "random_choice rnd seq =
     (if seq = [] then Inl IndexError else Inr (seq ! (rnd mod length seq)))"

text \<open>
  \<^verbatim>\<open>alphabet + [...]\<close>, as the items of the result: a list takes a list, a tuple and a
  string raise \<^verbatim>\<open>TypeError\<close>, and \<^verbatim>\<open>UserList.__add__\<close> takes a list and returns a
  \<^verbatim>\<open>UserList\<close> of the items of both.
\<close>

fun add_list :: "py_seq \<Rightarrow> string list \<Rightarrow> exn + string list" where
  "add_list (PyList xs) ys = Inr (xs @ ys)"
| "add_list (PyTuple xs) ys = Inl TypeError"
| "add_list (PyStr s) ys = Inl TypeError"
| "add_list (PyUserList xs) ys = Inr (xs @ ys)"

text \<open>
  \<^verbatim>\<open>
  def __init__(self, alphabet: Iterable[str]):
      self._rand_axiom = random.choice(alphabet)
      alphabet_with_ops = alphabet + [e.value for e in OperatorSymbols]
      self._rand_productions = {self._rand_axiom: random.choice(alphabet_with_ops)}
      super().__init__()
  \<close>
  The values of the enumeration \<^verbatim>\<open>OperatorSymbols\<close> (module \<^verbatim>\<open>l_system/rendering/turtle.py\<close>,
  not among the sources) are the parameter \<open>operator_symbols\<close>; \<open>rnd1\<close> and \<open>rnd2\<close> are the
  two draws. The initialiser of the base class is taken to return, as the test
  \<^verbatim>\<open>test_PseudoRandomAlphabet\<close> expects. The result is the grammar that the properties
  \<^verbatim>\<open>axiom\<close> and \<^verbatim>\<open>productions\<close> show.
\<close>

definition PseudoRandomAlphabet :: "string list \<Rightarrow> nat \<Rightarrow> nat \<Rightarrow> py_seq \<Rightarrow> exn + lsystem" where
  "PseudoRandomAlphabet operator_symbols rnd1 rnd2 alphabet =
     (case random_choice rnd1 (items alphabet) of
        Inl e \<Rightarrow> Inl e
      | Inr rand_axiom \<Rightarrow>
          (case add_list alphabet operator_symbols of
             Inl e \<Rightarrow> Inl e
           | Inr alphabet_with_ops \<Rightarrow>
               (case random_choice rnd2 alphabet_with_ops of
                  Inl e \<Rightarrow> Inl e
                | Inr p \<Rightarrow> Inr \<lparr>axiom = rand_axiom, productions = [rand_axiom \<mapsto> p]\<rparr>)))"

section \<open>Properties of the viewport fit\<close>

lemma world_coordinates_Inr:
  assumes "min (maxx - minx) (maxy - miny) + epsilon \<noteq> 0"
  shows "world_coordinates (minx, miny, maxx, maxy) =
           Inr (if maxx - minx > maxy - miny
                then (minx, miny - 1, maxx,
                      (maxy - 1) * (max (maxx - minx) (maxy - miny) / (min (maxx - minx) (maxy - miny) + epsilon)))
                else (minx, miny,
                      maxx * (max (maxx - minx) (maxy - miny) / (min (maxx - minx) (maxy - miny) + epsilon)), maxy))"
  using assms by (simp add: world_coordinates_def py_truediv_def Let_def)

lemma world_coordinates_Inl:
  "world_coordinates (minx, miny, maxx, maxy) = Inl e \<longleftrightarrow>
     e = ZeroDivisionError \<and> min (maxx - minx) (maxy - miny) + epsilon = 0"
  by (auto simp add: world_coordinates_def py_truediv_def Let_def)

text \<open>
  C1: with \<open>r = max w h / (min w h + epsilon)\<close>, when \<open>w > h\<close> the vertical axis of the
  window is stretched by the factor \<open>r\<close> and the horizontal extent is kept, otherwise the
  horizontal axis is stretched by \<open>r\<close>. The code misses this when \<open>w > h\<close>. At the
  bounding box \<open>(0, 0, 4, 2)\<close>, where \<open>w = 4 > h = 2\<close>, the ratio is
  \<open>r = 400000 / 200001\<close> and the window handed to \<^verbatim>\<open>setworldcoordinates\<close> is
  \<open>(0, -1, 4, r)\<close>: the horizontal bounds are kept, but \<open>r\<close> multiplies the bound
  \<open>maxy - 1\<close> and not the height, so that the window is \<open>r + 1\<close> high, not \<open>2 * r\<close>, and
  the point \<open>(0, 2)\<close> of the figure is above it.
\<close>

theorem world_coordinates_not_stretched_by_r:
  "world_coordinates (0, 0, 4, 2) = Inr (0, - 1, 4, 400000 / 200001) \<and>
   max (4 - 0) (2 - 0) / (min (4 - 0) (2 - 0) + epsilon) = 400000 / 200001 \<and>
   400000 / 200001 - (- 1) \<noteq> (400000 / 200001) * (2 - 0 :: real) \<and>
   in_box (0, 0, 4, 2) (0, 2) \<and> \<not> in_box (0, - 1, 4, 400000 / 200001) (0, 2)"
  by (simp add: world_coordinates_def py_truediv_def epsilon_def Let_def)

text \<open>
  The other branch does stretch by \<open>r\<close> at the mirrored box \<open>(0, 0, 2, 4)\<close>: the vertical
  bounds are kept and the window is \<open>r\<close> times as wide as the figure.
\<close>

lemma world_coordinates_else_branch_stretches:
  "world_coordinates (0, 0, 2, 4) = Inr (0, 0, 800000 / 200001, 4) \<and>
   max (2 - 0) (4 - 0) / (min (2 - 0) (4 - 0) + epsilon) = 400000 / 200001 \<and>
   800000 / 200001 - 0 = (400000 / 200001) * (2 - 0 :: real)"
  by (simp add: world_coordinates_def py_truediv_def epsilon_def Let_def)

text \<open>
  C2: every point of the measured bounding box lies within the window. The code misses
  this. A figure that is wider than high and hangs below the start point, with bounding
  box \<open>(0, -20, 30, 0)\<close>, gets the window \<open>(0, -21, 30, -3000000 / 2000001)\<close>: the upper
  bound is \<open>(maxy - 1) * r\<close>, below zero, and the start point \<open>(0, 0)\<close> of that very
  figure is cut off.
\<close>

theorem world_coordinates_clips_figure:
  "world_coordinates (0, - 20, 30, 0) = Inr (0, - 21, 30, - (3000000 / 2000001)) \<and>
   in_box (0, - 20, 30, 0) (0, 0) \<and>
   \<not> in_box (0, - 21, 30, - (3000000 / 2000001)) (0, 0)"
  by (simp add: world_coordinates_def py_truediv_def epsilon_def Let_def)

text \<open>
  The same happens to a single straight segment along the x axis, bounding box
  \<open>(0, 0, 10, 0)\<close>, and, by a hair, to a square figure \<open>(0, 0, 10, 10)\<close>, where \<open>r < 1\<close>.
\<close>

lemma world_coordinates_clips_segment:
  "world_coordinates (0, 0, 10, 0) = Inr (0, - 1, 10, - 1000000) \<and>
   in_box (0, 0, 10, 0) (0, 0) \<and> \<not> in_box (0, - 1, 10, - 1000000) (0, 0)"
  by (simp add: world_coordinates_def py_truediv_def epsilon_def Let_def)

lemma world_coordinates_clips_square:
  "world_coordinates (0, 0, 10, 10) = Inr (0, 0, 10000000 / 1000001, 10) \<and>
   in_box (0, 0, 10, 10) (10, 5) \<and> \<not> in_box (0, 0, 10000000 / 1000001, 10) (10, 5)"
  by (simp add: world_coordinates_def py_truediv_def epsilon_def Let_def)

text \<open>
  C3: for a bounding box of non-negative width and height, the degenerate cases of width
  or height zero included, the divisor \<open>min w h + epsilon\<close> is strictly positive, so the
  division raises no \<^verbatim>\<open>ZeroDivisionError\<close> and the viewport fit yields a window.
\<close>

theorem world_coordinates_no_zero_division:
  assumes "0 \<le> maxx - minx" and "0 \<le> maxy - miny"
  shows "0 < min (maxx - minx) (maxy - miny) + epsilon \<and>
         (\<exists>r. py_truediv (max (maxx - minx) (maxy - miny))
                 (min (maxx - minx) (maxy - miny) + epsilon) = Inr r) \<and>
         (\<exists>win. world_coordinates (minx, miny, maxx, maxy) = Inr win)"
proof -
  have pos: "0 < min (maxx - minx) (maxy - miny) + epsilon"
    using assms by (simp add: epsilon_def min_def)
  then have nz: "min (maxx - minx) (maxy - miny) + epsilon \<noteq> 0"
    by simp
  show ?thesis
    using pos nz world_coordinates_Inr [OF nz] by (simp add: py_truediv_def)
qed

theorem world_coordinates_no_zero_division_witness:
  "(0::real) \<le> 10 - 0 \<and> (0::real) \<le> 0 - 0 \<and>
   0 < min (10 - 0) (0 - 0) + epsilon \<and>
   world_coordinates (0, 0, 10, 0) = Inr (0, - 1, 10, - 1000000)"
proof -
  have w: "(0::real) \<le> 10 - 0" and h: "(0::real) \<le> 0 - 0"
    by simp_all
  from world_coordinates_no_zero_division [OF w h]
  show ?thesis
    by (simp add: world_coordinates_def py_truediv_def epsilon_def Let_def)
qed

section \<open>Properties of the renderer\<close>

lemma and_then_Normal [simp]: "and_then (Normal w) f = f w"
  by (simp add: and_then_def)

lemma and_then_Raise [simp]: "and_then (Raise e w) f = Raise e w"
  by (simp add: and_then_def)

lemma recorded_None [simp]: "recorded None c calls = Normal (calls @ [c])"
  by (simp add: recorded_def)

lemma recording_env_sel [simp]:
  "turtle_reset (recording_env bb fault) = recorded fault TurtleReset"
  "turtle_animate (recording_env bb fault) b = recorded fault (TurtleAnimate b)"
  "turtle_move (recording_env bb fault) k = recorded fault (TurtleMove k)"
  "turtle_hideturtle (recording_env bb fault) = recorded fault TurtleHideturtle"
  "turtle_update (recording_env bb fault) = recorded fault TurtleUpdate"
  "turtle_save_to_eps (recording_env bb fault) p = recorded fault (TurtleSaveToEps p)"
  "turtle_mainloop (recording_env bb fault) = recorded fault TurtleMainloop"
  "turtle_bounding_box (recording_env bb fault) calls = bb"
  "screen_setworldcoordinates (recording_env bb fault) win = recorded fault (SetWorldCoordinates win)"
  "root_title (recording_env bb fault) t = recorded fault (RootTitle t)"
  "print_line (recording_env bb fault) s calls = calls @ [Print s]"
  by (simp_all add: recording_env_def)

text \<open>In the recording world without a fault, the loop adds the calls of one pass.\<close>

lemma run_moves_recording:
  "run_moves (recording_env bb None) R i syms calls = Normal (calls @ pass_calls R i syms)"
  by (induction syms arbitrary: i calls) simp_all

text \<open>In any world, the loop performs the calls of one pass until one of them raises.\<close>

lemma run_moves_perform_all:
  "run_moves E R i syms w = perform_all E (pass_calls R i syms) w"
  by (induction syms arbitrary: i w) (simp_all add: and_then_def split: outcome.splits)

lemma interpreter_moves_pass_calls:
  "interpreter_moves (pass_calls R i syms) = map (move_key (turtle_conf R)) syms"
  by (induction syms arbitrary: i) simp_all

text \<open>
  What \<^verbatim>\<open>_update_world_coordinates\<close> does to the recording world: the turtle is reset,
  animation is turned off, every symbol sets the window title and moves the turtle, the
  window is set and the turtle is reset again.
\<close>

lemma update_world_coordinates_recording:
  assumes "world_coordinates bb = Inr win"
  shows "update_world_coordinates (recording_env bb None) R [] =
           Normal ([TurtleReset, TurtleAnimate False] @ pass_calls R 1 (lsystem_symbols R)
                   @ [SetWorldCoordinates win, TurtleReset])"
  using assms
  by (simp add: update_world_coordinates_def run_all_moves_def run_moves_recording)

text \<open>
  C5: the measure pass and the draw pass of \<^verbatim>\<open>draw\<close> enumerate the same symbols in the
  same order and apply the same move mapping to each, and the render is a function of
  its inputs. When the viewport fit yields a window, the calls that \<^verbatim>\<open>draw\<close> makes, in
  order, are: reset, animation off, the calls of one pass, the window, reset, the
  animation setting, the calls of the same pass again, then hiding the turtle, the
  update, the export if asked for and the main loop. The moves of the pass are the
  symbols of the L-system, in their order, each resolved through the move mapper. In any
  world whatever, \<^verbatim>\<open>_run_all_moves\<close> performs the calls of that one pass.
\<close>

theorem draw_two_passes_same_moves:
  assumes "world_coordinates bb = Inr win"
  shows "draw (recording_env bb None) R save [] =
           Normal ([TurtleReset, TurtleAnimate False]
                   @ pass_calls R 1 (lsystem_symbols R)
                   @ [SetWorldCoordinates win, TurtleReset, TurtleAnimate (animate R)]
                   @ pass_calls R 1 (lsystem_symbols R)
                   @ [TurtleHideturtle, TurtleUpdate]
                   @ (case save of None \<Rightarrow> [] | Some path \<Rightarrow> [TurtleSaveToEps (path @ ''.eps'')])
                   @ [TurtleMainloop]) \<and>
         interpreter_moves (pass_calls R 1 (lsystem_symbols R)) =
           map (move_key (turtle_conf R)) (lsystem_symbols R) \<and>
         run_all_moves E R w = perform_all E (pass_calls R 1 (lsystem_symbols R)) w"
proof -
  note upd = update_world_coordinates_recording [OF assms]
  have trace: "draw (recording_env bb None) R save [] =
           Normal ([TurtleReset, TurtleAnimate False]
                   @ pass_calls R 1 (lsystem_symbols R)
                   @ [SetWorldCoordinates win, TurtleReset, TurtleAnimate (animate R)]
                   @ pass_calls R 1 (lsystem_symbols R)
                   @ [TurtleHideturtle, TurtleUpdate]
                   @ (case save of None \<Rightarrow> [] | Some path \<Rightarrow> [TurtleSaveToEps (path @ ''.eps'')])
                   @ [TurtleMainloop])"
    by (cases save)
       (simp_all add: draw_def draw_body_def upd run_all_moves_def run_moves_recording)
  have moves: "interpreter_moves (pass_calls R 1 (lsystem_symbols R)) =
           map (move_key (turtle_conf R)) (lsystem_symbols R)"
    by (rule interpreter_moves_pass_calls)
  have any: "run_all_moves E R w = perform_all E (pass_calls R 1 (lsystem_symbols R)) w"
    by (simp add: run_all_moves_def run_moves_perform_all)
  from trace moves any show ?thesis by blast
qed

theorem draw_two_passes_same_moves_witness:
  "world_coordinates (0, 0, 4, 2) = Inr (0, - 1, 4, 400000 / 200001) \<and>
   draw (recording_env (0, 0, 4, 2) None) example_renderer None [] =
     Normal
       [TurtleReset, TurtleAnimate False,
        RootTitle (''Example'', 1, 2), TurtleMove ''F'', RootTitle (''Example'', 2, 2), TurtleMove ''+'',
        SetWorldCoordinates (0, - 1, 4, 400000 / 200001), TurtleReset, TurtleAnimate True,
        RootTitle (''Example'', 1, 2), TurtleMove ''F'', RootTitle (''Example'', 2, 2), TurtleMove ''+'',
        TurtleHideturtle, TurtleUpdate, TurtleMainloop]"
proof -
  have wc: "world_coordinates (0, 0, 4, 2) = Inr (0, - 1, 4, 400000 / 200001)"
    by (simp add: world_coordinates_def py_truediv_def epsilon_def Let_def)
  from draw_two_passes_same_moves [OF wc, of example_renderer None, THEN conjunct1] wc
  show ?thesis
    by (simp add: example_renderer_def example_conf_def move_key_def dict_get_def numeral_2_eq_2)
qed

text \<open>
  C6: for every symbol and every move mapper, the symbol resolves to the value the mapper
  holds for it when it is a key of the mapper, and to itself when it is not.
  \<open>move_key\<close> is a total function without an error result: resolving never fails.
\<close>

theorem move_key_resolves:
  "(l_str \<in> dom (turtle_move_mapper conf) \<longrightarrow>
      turtle_move_mapper conf l_str = Some (move_key conf l_str)) \<and>
   (l_str \<notin> dom (turtle_move_mapper conf) \<longrightarrow> move_key conf l_str = l_str)"
  by (cases "turtle_move_mapper conf l_str") (simp_all add: move_key_def dict_get_def dom_def)

theorem move_key_resolves_witness:
  "''A'' \<in> dom (turtle_move_mapper example_conf) \<and> move_key example_conf ''A'' = ''F'' \<and>
   ''+'' \<notin> dom (turtle_move_mapper example_conf) \<and> move_key example_conf ''+'' = ''+''"
  using move_key_resolves [of "''A''" example_conf] move_key_resolves [of "''+''" example_conf]
  by (simp add: example_conf_def)

text \<open>
  C7: whatever the turtle, the screen and the window do, \<^verbatim>\<open>draw\<close> never ends in a
  \<^verbatim>\<open>Terminator\<close> or a \<^verbatim>\<open>TclError\<close>: when its body raises one of the two, \<^verbatim>\<open>draw\<close> returns
  normally, having printed \<^verbatim>\<open>Exiting...\<close> in the world the exception left.
\<close>

theorem draw_catches_interruption:
  "(\<forall>w'. draw E R save w \<noteq> Raise Terminator w' \<and> draw E R save w \<noteq> Raise TclError w') \<and>
   (\<forall>e w'. draw_body E R save w = Raise e w' \<and> (e = Terminator \<or> e = TclError) \<longrightarrow>
        draw E R save w = Normal (print_line E ''Exiting...'' w'))"
  by (auto simp add: draw_def split: outcome.splits)

theorem draw_catches_interruption_witness:
  "draw_body (recording_env (0, 0, 4, 2) (Some (8, TclError))) example_renderer None [] =
     Raise TclError
       [TurtleReset, TurtleAnimate False,
        RootTitle (''Example'', 1, 2), TurtleMove ''F'', RootTitle (''Example'', 2, 2), TurtleMove ''+'',
        SetWorldCoordinates (0, - 1, 4, 400000 / 200001), TurtleReset, TurtleAnimate True] \<and>
   draw (recording_env (0, 0, 4, 2) (Some (8, TclError))) example_renderer None [] =
     Normal
       [TurtleReset, TurtleAnimate False,
        RootTitle (''Example'', 1, 2), TurtleMove ''F'', RootTitle (''Example'', 2, 2), TurtleMove ''+'',
        SetWorldCoordinates (0, - 1, 4, 400000 / 200001), TurtleReset, TurtleAnimate True,
        Print ''Exiting...'']"
proof -
  have wc: "world_coordinates (0, 0, 4, 2) = Inr (0, - 1, 4, 400000 / 200001)"
    by (simp add: world_coordinates_def py_truediv_def epsilon_def Let_def)
  have body: "draw_body (recording_env (0, 0, 4, 2) (Some (8, TclError))) example_renderer None [] =
     Raise TclError
       [TurtleReset, TurtleAnimate False,
        RootTitle (''Example'', 1, 2), TurtleMove ''F'', RootTitle (''Example'', 2, 2), TurtleMove ''+'',
        SetWorldCoordinates (0, - 1, 4, 400000 / 200001), TurtleReset, TurtleAnimate True]"
    by (simp add: draw_body_def update_world_coordinates_def run_all_moves_def wc
          example_renderer_def example_conf_def move_key_def dict_get_def recorded_def)
  from draw_catches_interruption
    [of "recording_env (0, 0, 4, 2) (Some (8, TclError))" example_renderer None "[]"] body
  show ?thesis by simp
qed

text \<open>An exception of another class is not caught: a division by zero in the viewport fit leaves \<^verbatim>\<open>draw\<close>.\<close>

lemma draw_propagates_zero_division:
  "draw (recording_env (0, 0, 1, - (1 / 100000)) None) example_renderer None [] =
     Raise ZeroDivisionError
       [TurtleReset, TurtleAnimate False,
        RootTitle (''Example'', 1, 2), TurtleMove ''F'', RootTitle (''Example'', 2, 2), TurtleMove ''+'']"
  by (simp add: draw_def draw_body_def update_world_coordinates_def run_all_moves_def
        world_coordinates_def py_truediv_def epsilon_def Let_def
        example_renderer_def example_conf_def move_key_def dict_get_def)

section \<open>Properties of the grammar\<close>

text \<open>The model of \<^verbatim>\<open>apply\<close> yields the strings of the specification's scenarios A and B.\<close>

lemma algae_scenario:
  "lsystem_apply Algae 1 = Inr ''AB'' \<and> lsystem_apply Algae 2 = Inr ''ABA'' \<and>
   lsystem_apply Algae 3 = Inr ''ABAAB''"
  by (simp add: lsystem_apply_def Algae_def rewrite_def eval_nat_numeral)

lemma koch_scenario:
  "lsystem_apply KochCurve 1 = Inr ''F+F--F+F'' \<and>
   lsystem_apply KochCurve 2 = Inr ''F+F--F+F+F+F--F+F--F+F--F+F+F+F--F+F''"
  by (simp add: lsystem_apply_def KochCurve_def rewrite_def eval_nat_numeral)

lemma lsystem_apply_negative: "n < 0 \<Longrightarrow> lsystem_apply L n = Inl InvalidArgument"
  by (simp add: lsystem_apply_def)

text \<open>
  C9: for every grammar, \<^verbatim>\<open>apply(0)\<close> returns the axiom unchanged: zero rounds of
  rewriting substitute nothing.
\<close>

theorem lsystem_apply_zero: "lsystem_apply L 0 = Inr (axiom L)"
  by (simp add: lsystem_apply_def)

section \<open>Properties of the pseudo-random grammar\<close>

lemma random_choice_nonempty:
  "seq \<noteq> [] \<Longrightarrow> \<exists>x. random_choice rnd seq = Inr x \<and> x \<in> set seq"
  by (simp add: random_choice_def)

text \<open>
  C8: for every non-empty list alphabet, whatever is drawn, the constructor yields a
  grammar whose axiom is an element of the alphabet and a key of its productions; for
  the alphabet \<^verbatim>\<open>["a"]\<close> the axiom is \<^verbatim>\<open>"a"\<close> and \<^verbatim>\<open>"a"\<close> is a key of the productions.
\<close>

theorem PseudoRandomAlphabet_axiom_in_alphabet:
  assumes "alphabet \<noteq> []"
  shows "(\<exists>g. PseudoRandomAlphabet operator_symbols rnd1 rnd2 (PyList alphabet) = Inr g \<and>
              axiom g \<in> set alphabet \<and> axiom g \<in> dom (productions g)) \<and>
         (\<exists>g. PseudoRandomAlphabet operator_symbols rnd1 rnd2 (PyList [''a'']) = Inr g \<and>
              axiom g = ''a'' \<and> ''a'' \<in> dom (productions g))"
proof -
  have general: "\<exists>g. PseudoRandomAlphabet ops rnd1 rnd2 (PyList xs) = Inr g \<and>
              axiom g \<in> set xs \<and> axiom g \<in> dom (productions g)" if "xs \<noteq> []" for xs ops
  proof -
    from that obtain a where a: "random_choice rnd1 xs = Inr a" "a \<in> set xs"
      using random_choice_nonempty by blast
    from that have "xs @ ops \<noteq> []" by simp
    then obtain p where p: "random_choice rnd2 (xs @ ops) = Inr p"
      using random_choice_nonempty by blast
    have "PseudoRandomAlphabet ops rnd1 rnd2 (PyList xs) = Inr \<lparr>axiom = a, productions = [a \<mapsto> p]\<rparr>"
      by (simp add: PseudoRandomAlphabet_def a p)
    with a show ?thesis by simp
  qed
  from general [OF assms] general [of "[''a'']" operator_symbols]
  show ?thesis by auto
qed

theorem PseudoRandomAlphabet_axiom_in_alphabet_witness:
  "[''a'', ''b''] \<noteq> [] \<and>
   PseudoRandomAlphabet [''F'', ''+''] 1 2 (PyList [''a'', ''b'']) =
     Inr \<lparr>axiom = ''b'', productions = [''b'' \<mapsto> ''F'']\<rparr> \<and>
   (\<exists>g. PseudoRandomAlphabet [''F'', ''+''] 1 2 (PyList [''a'', ''b'']) = Inr g \<and>
        axiom g \<in> set [''a'', ''b''] \<and> axiom g \<in> dom (productions g))"
proof -
  have ne: "[''a'', ''b''] \<noteq> []" by simp
  have ev: "PseudoRandomAlphabet [''F'', ''+''] 1 2 (PyList [''a'', ''b'']) =
     Inr \<lparr>axiom = ''b'', productions = [''b'' \<mapsto> ''F'']\<rparr>"
    by (simp add: PseudoRandomAlphabet_def random_choice_def)
  from PseudoRandomAlphabet_axiom_in_alphabet [OF ne, of "[''F'', ''+'']" 1 2] ne ev
  show ?thesis by simp
qed



end
